theory Spec2Isabelle
  imports
    Complex_Main
    "HOL-Library.FSet"
    "HOL-Library.Char_ord"
    "HOL-Library.List_Lexorder"
    "HOL-Library.Log_Nat"
begin

section \<open>Python values used by \<^verbatim>\<open>main.py\<close>\<close>

subsection \<open>Strings\<close>

text \<open>
  A Python \<^verbatim>\<open>str\<close> is modelled by its UTF-8 encoding, a \<^typ>\<open>string\<close> (list of
  bytes). Concatenation and equality are those of the code point sequence, and the
  byte-wise lexicographic order of UTF-8 (\<^verbatim>\<open>Char_ord\<close> with \<^verbatim>\<open>List_Lexorder\<close>) is the
  code point order that \<^verbatim>\<open>sorted\<close> uses on \<^verbatim>\<open>str\<close>. The Russian literals of the
  source are written as their bytes; each constant names its code points.
\<close>

definition lit_s :: string where
  \<comment> \<open>U+0441, the preposition that opens the milk segment\<close>
  "lit_s = [CHR 0xD1, CHR 0x81]"

definition lit_molokom :: string where
  \<comment> \<open>U+043C U+043E U+043B U+043E U+043A U+043E U+043C\<close>
  "lit_molokom = [CHR 0xD0, CHR 0xBC, CHR 0xD0, CHR 0xBE, CHR 0xD0, CHR 0xBB, CHR 0xD0, CHR 0xBE,
     CHR 0xD0, CHR 0xBA, CHR 0xD0, CHR 0xBE, CHR 0xD0, CHR 0xBC]"

definition lit_tselnoe :: string where
  \<comment> \<open>U+0446 U+0435 U+043B U+044C U+043D U+043E U+0435, the name of whole milk\<close>
  "lit_tselnoe = [CHR 0xD1, CHR 0x86, CHR 0xD0, CHR 0xB5, CHR 0xD0, CHR 0xBB, CHR 0xD1, CHR 0x8C,
     CHR 0xD0, CHR 0xBD, CHR 0xD0, CHR 0xBE, CHR 0xD0, CHR 0xB5]"

definition lit_obezzhirennoe :: string where
  \<comment> \<open>U+043E U+0431 U+0435 U+0437 U+0436 U+0438 U+0440 U+0435 U+043D U+043D U+043E U+0435,
      the name of skim milk\<close>
  "lit_obezzhirennoe = [CHR 0xD0, CHR 0xBE, CHR 0xD0, CHR 0xB1, CHR 0xD0, CHR 0xB5, CHR 0xD0, CHR 0xB7,
     CHR 0xD0, CHR 0xB6, CHR 0xD0, CHR 0xB8, CHR 0xD1, CHR 0x80, CHR 0xD0, CHR 0xB5,
     CHR 0xD0, CHR 0xBD, CHR 0xD0, CHR 0xBD, CHR 0xD0, CHR 0xBE, CHR 0xD0, CHR 0xB5]"

definition lit_ovsyanoe :: string where
  \<comment> \<open>U+043E U+0432 U+0441 U+044F U+043D U+043E U+0435, the name of oat milk\<close>
  "lit_ovsyanoe = [CHR 0xD0, CHR 0xBE, CHR 0xD0, CHR 0xB2, CHR 0xD1, CHR 0x81, CHR 0xD1, CHR 0x8F,
     CHR 0xD0, CHR 0xBD, CHR 0xD0, CHR 0xBE, CHR 0xD0, CHR 0xB5]"

definition lit_soevoe :: string where
  \<comment> \<open>U+0441 U+043E U+0435 U+0432 U+043E U+0435, the name of soy milk\<close>
  "lit_soevoe = [CHR 0xD1, CHR 0x81, CHR 0xD0, CHR 0xBE, CHR 0xD0, CHR 0xB5, CHR 0xD0, CHR 0xB2,
     CHR 0xD0, CHR 0xBE, CHR 0xD0, CHR 0xB5]"

definition lit_siropy :: string where
  \<comment> \<open>U+0441 U+0438 U+0440 U+043E U+043F U+044B\<close>
  "lit_siropy = [CHR 0xD1, CHR 0x81, CHR 0xD0, CHR 0xB8, CHR 0xD1, CHR 0x80, CHR 0xD0, CHR 0xBE,
     CHR 0xD0, CHR 0xBF, CHR 0xD1, CHR 0x8B]"

definition lit_so_ldom :: string where
  \<comment> \<open>U+0441 U+043E, a space, U+043B U+044C U+0434 U+043E U+043C\<close>
  "lit_so_ldom = [CHR 0xD1, CHR 0x81, CHR 0xD0, CHR 0xBE, CHR 0x20, CHR 0xD0, CHR 0xBB, CHR 0xD1, CHR 0x8C,
     CHR 0xD0, CHR 0xB4, CHR 0xD0, CHR 0xBE, CHR 0xD0, CHR 0xBC]"

definition lit_lozhka :: string where
  \<comment> \<open>U+043B U+043E U+0436 U+043A U+0430, the unit word for one spoon\<close>
  "lit_lozhka = [CHR 0xD0, CHR 0xBB, CHR 0xD0, CHR 0xBE, CHR 0xD0, CHR 0xB6, CHR 0xD0, CHR 0xBA,
     CHR 0xD0, CHR 0xB0]"

definition lit_lozhki :: string where
  \<comment> \<open>U+043B U+043E U+0436 U+043A U+0438, the unit word for two to four spoons\<close>
  "lit_lozhki = [CHR 0xD0, CHR 0xBB, CHR 0xD0, CHR 0xBE, CHR 0xD0, CHR 0xB6, CHR 0xD0, CHR 0xBA,
     CHR 0xD0, CHR 0xB8]"

definition lit_lozhek :: string where
  \<comment> \<open>U+043B U+043E U+0436 U+0435 U+043A, the unit word otherwise\<close>
  "lit_lozhek = [CHR 0xD0, CHR 0xBB, CHR 0xD0, CHR 0xBE, CHR 0xD0, CHR 0xB6, CHR 0xD0, CHR 0xB5,
     CHR 0xD0, CHR 0xBA]"

definition lit_sakhara :: string where
  \<comment> \<open>U+0441 U+0430 U+0445 U+0430 U+0440 U+0430\<close>
  "lit_sakhara = [CHR 0xD1, CHR 0x81, CHR 0xD0, CHR 0xB0, CHR 0xD1, CHR 0x85, CHR 0xD0, CHR 0xB0,
     CHR 0xD1, CHR 0x80, CHR 0xD0, CHR 0xB0]"

definition lit_rouble :: string where
  \<comment> \<open>U+20BD, the rouble sign\<close>
  "lit_rouble = [CHR 0xE2, CHR 0x82, CHR 0xBD]"

definition lit_karamel :: string where
  \<comment> \<open>U+043A U+0430 U+0440 U+0430 U+043C U+0435 U+043B U+044C, a syrup name of the tests\<close>
  "lit_karamel = [CHR 0xD0, CHR 0xBA, CHR 0xD0, CHR 0xB0, CHR 0xD1, CHR 0x80, CHR 0xD0, CHR 0xB0,
     CHR 0xD0, CHR 0xBC, CHR 0xD0, CHR 0xB5, CHR 0xD0, CHR 0xBB, CHR 0xD1, CHR 0x8C]"

definition lit_vanil :: string where
  \<comment> \<open>U+0432 U+0430 U+043D U+0438 U+043B U+044C, a syrup name of the tests\<close>
  "lit_vanil = [CHR 0xD0, CHR 0xB2, CHR 0xD0, CHR 0xB0, CHR 0xD0, CHR 0xBD, CHR 0xD0, CHR 0xB8,
     CHR 0xD0, CHR 0xBB, CHR 0xD1, CHR 0x8C]"

text \<open>\<^verbatim>\<open>sep.join(parts)\<close>.\<close>

fun join :: "string \<Rightarrow> string list \<Rightarrow> string" where
  "join sep [] = []"
| "join sep [x] = x"
| "join sep (x # y # ys) = x @ sep @ join sep (y # ys)"

text \<open>The decimal text of an integer, as \<^verbatim>\<open>str\<close> and an f-string give it.\<close>

definition digit_char :: "nat \<Rightarrow> char" where
  "digit_char d = char_of (48 + d)"

function str_nat :: "nat \<Rightarrow> string" where
  "str_nat n = (if n < 10 then [digit_char n] else str_nat (n div 10) @ [digit_char (n mod 10)])"
  by pat_completeness auto
termination
  by (relation "measure id") auto

declare str_nat.simps [simp del]

definition str_int :: "int \<Rightarrow> string" where
  "str_int i = (if i < 0 then CHR ''-'' # str_nat (nat (- i)) else str_nat (nat i))"

subsection \<open>Numbers\<close>

text \<open>
  Python does not enforce the annotation \<^verbatim>\<open>teaspoons: int\<close>, so a number that reaches
  \<^verbatim>\<open>set_sugar\<close> is an \<^verbatim>\<open>int\<close> or a \<^verbatim>\<open>float\<close>. A finite float is modelled by
  the rational number it denotes; infinities and NaN are values of their own. Python
  compares an int with a float by their exact values, and every comparison with NaN is
  false.
\<close>

datatype pyfloat = Fin rat | PosInf | NegInf | NaN

datatype pynum = PyInt int | PyFloat pyfloat

fun as_float :: "pynum \<Rightarrow> pyfloat" where
  "as_float (PyInt i) = Fin (of_int i)"
| "as_float (PyFloat f) = f"

fun float_le :: "pyfloat \<Rightarrow> pyfloat \<Rightarrow> bool" where
  "float_le NaN _ = False"
| "float_le _ NaN = False"
| "float_le (Fin a) (Fin b) = (a \<le> b)"
| "float_le NegInf _ = True"
| "float_le _ PosInf = True"
| "float_le PosInf _ = False"
| "float_le _ NegInf = False"

fun float_lt :: "pyfloat \<Rightarrow> pyfloat \<Rightarrow> bool" where
  "float_lt NaN _ = False"
| "float_lt _ NaN = False"
| "float_lt (Fin a) (Fin b) = (a < b)"
| "float_lt PosInf _ = False"
| "float_lt _ NegInf = False"
| "float_lt NegInf _ = True"
| "float_lt _ PosInf = True"

fun float_eq :: "pyfloat \<Rightarrow> pyfloat \<Rightarrow> bool" where
  "float_eq NaN _ = False"
| "float_eq _ NaN = False"
| "float_eq a b = (a = b)"

definition py_le :: "pynum \<Rightarrow> pynum \<Rightarrow> bool" where
  "py_le a b = float_le (as_float a) (as_float b)"

definition py_lt :: "pynum \<Rightarrow> pynum \<Rightarrow> bool" where
  "py_lt a b = float_lt (as_float a) (as_float b)"

definition py_gt :: "pynum \<Rightarrow> pynum \<Rightarrow> bool" where
  "py_gt a b = py_lt b a"

definition py_eq :: "pynum \<Rightarrow> pynum \<Rightarrow> bool" where
  "py_eq a b = float_eq (as_float a) (as_float b)"

text \<open>
  The text of a number in an f-string. For an \<^verbatim>\<open>int\<close> it is the decimal text; for a
  \<^verbatim>\<open>float\<close> it is Python's built-in \<^verbatim>\<open>repr\<close>, which is not code of this repository
  and is taken as the parameter \<open>frepr\<close>.
\<close>

fun py_str :: "(pyfloat \<Rightarrow> string) \<Rightarrow> pynum \<Rightarrow> string" where
  "py_str frepr (PyInt i) = str_int i"
| "py_str frepr (PyFloat f) = frepr f"

subsection \<open>Float arithmetic\<close>

text \<open>
  A Python \<^verbatim>\<open>float\<close> is an IEEE 754 binary64 number and every arithmetic operation
  returns the exact result rounded to the nearest such number, ties to the even
  significand. \<open>fl\<close> is that rounding on the rationals: \<open>binade x\<close> is the exponent
  \<open>e\<close> with \<open>2 ^ e \<le> \<bar>x\<bar> < 2 ^ (e + 1)\<close>, and the significand is rounded to 53 bits.
  The exponent is not bounded: overflow and subnormal numbers are not modelled, and they
  cannot arise from the prices computed here, which lie between 0.2 and a few hundred.
\<close>

definition round_half_even :: "rat \<Rightarrow> int" where
  "round_half_even y =
     (let f = \<lfloor>y\<rfloor>; d = y - of_int f
      in if d < 1 / 2 then f
         else if 1 / 2 < d then f + 1
         else if even f then f else f + 1)"

definition pow2 :: "int \<Rightarrow> rat" where
  "pow2 k = (if 0 \<le> k then 2 ^ nat k else 1 / 2 ^ nat (- k))"

definition binade :: "rat \<Rightarrow> int" where
  "binade x =
     (let a = \<bar>x\<bar>
      in if 1 \<le> a then int (floorlog 2 (nat \<lfloor>a\<rfloor>)) - 1
         else - int (floorlog 2 (nat (\<lceil>1 / a\<rceil> - 1))))"

definition fl :: "rat \<Rightarrow> rat" where
  "fl x = (if x = 0 then 0
           else let s = pow2 (52 - binade x)
                in of_int (round_half_even (x * s)) / s)"

text \<open>A float literal, the conversion of an \<^verbatim>\<open>int\<close> operand, and the two operations used.\<close>

definition float_lit :: "rat \<Rightarrow> rat" where
  "float_lit q = fl q"

definition float_of_int :: "int \<Rightarrow> rat" where
  "float_of_int i = fl (of_int i)"

definition fmul :: "rat \<Rightarrow> rat \<Rightarrow> rat" where
  "fmul a b = fl (a * b)"

definition fadd :: "rat \<Rightarrow> rat \<Rightarrow> rat" where
  "fadd a b = fl (a + b)"

text \<open>
  \<^verbatim>\<open>round(x, ndigits)\<close> on a float: CPython prints the exact value of \<open>x\<close> with
  \<open>ndigits\<close> decimals, correctly rounded with ties to even, and reads the decimal back as
  the nearest float.
\<close>

definition py_round :: "rat \<Rightarrow> nat \<Rightarrow> rat" where
  "py_round x ndigits = fl (of_int (round_half_even (x * 10 ^ ndigits)) / 10 ^ ndigits)"

section \<open>The coffee order and its builder\<close>

subsection \<open>Enumerations, price tables and limits\<close>

text \<open>The values of the three \<^verbatim>\<open>str\<close> enumerations, in declaration order.\<close>

definition CoffeeBase_values :: "string list" where
  "CoffeeBase_values = [''espresso'', ''americano'', ''latte'', ''cappuccino'']"

definition CoffeeSize_values :: "string list" where
  "CoffeeSize_values = [''small'', ''medium'', ''large'']"

definition MilkType_values :: "string list" where
  "MilkType_values = [''none'', ''whole'', ''skim'', ''oat'', ''soy'']"

text \<open>The class attributes of \<^verbatim>\<open>CoffeeOrderBuilder\<close>. A dictionary is an association list.\<close>

definition BASE_PRICES :: "(string \<times> int) list" where
  "BASE_PRICES = [(''espresso'', 200), (''americano'', 250), (''latte'', 300), (''cappuccino'', 320)]"

definition SIZE_MULTIPLIERS :: "(string \<times> rat) list" where
  "SIZE_MULTIPLIERS =
     [(''small'', float_lit 1), (''medium'', float_lit (12 / 10)), (''large'', float_lit (14 / 10))]"

definition MILK_PRICES :: "(string \<times> int) list" where
  "MILK_PRICES = [(''none'', 0), (''whole'', 30), (''skim'', 30), (''oat'', 60), (''soy'', 50)]"

definition SYRUP_PRICE :: int where
  "SYRUP_PRICE = 40"

definition ICED_PRICE :: rat where
  "ICED_PRICE = float_lit (2 / 10)"

definition MAX_SUGAR :: int where
  "MAX_SUGAR = 5"

definition MAX_SYRUPS :: nat where
  "MAX_SYRUPS = 4"

subsection \<open>Errors\<close>

text \<open>
  Every failure the builder signals itself is a \<^verbatim>\<open>ValueError\<close>; the \<open>message\<close> names
  the \<^verbatim>\<open>raise\<close> statement it comes from, in source order:
  \<open>BadBase\<close>, \<open>BadSize\<close>, \<open>BadMilk\<close> (the setters' membership tests, with the rejected
  value), \<open>SyrupLimit\<close> (\<^verbatim>\<open>add_syrup\<close>), \<open>SugarRange\<close> (\<^verbatim>\<open>set_sugar\<close>), and in
  \<^verbatim>\<open>build\<close> \<open>NoBase\<close> (the message ending in \<^verbatim>\<open>(base)\<close>), \<open>NoSize\<close> (the message
  ending in \<^verbatim>\<open>(size)\<close>), \<open>SugarOver\<close> and \<open>SyrupOver\<close>. A dictionary subscript with
  a missing key raises \<^verbatim>\<open>KeyError\<close>.
\<close>

datatype message =
    BadBase string
  | BadSize string
  | BadMilk string
  | SyrupLimit
  | SugarRange
  | NoBase
  | NoSize
  | SugarOver
  | SyrupOver

datatype error = ValueError message | KeyError string

text \<open>\<^verbatim>\<open>d[k]\<close> and \<^verbatim>\<open>d.get(k, default)\<close>.\<close>

definition subscript :: "(string \<times> 'v) list \<Rightarrow> string \<Rightarrow> error + 'v" where
  "subscript d k = (case map_of d k of None \<Rightarrow> Inl (KeyError k) | Some v \<Rightarrow> Inr v)"

definition dict_get :: "(string \<times> 'v) list \<Rightarrow> string \<Rightarrow> 'v \<Rightarrow> 'v" where
  "dict_get d k dflt = (case map_of d k of None \<Rightarrow> dflt | Some v \<Rightarrow> v)"

subsection \<open>State\<close>

text \<open>
  The fields of the frozen dataclass \<^verbatim>\<open>CoffeeOrder\<close> carry the prefix \<open>o_\<close>, the
  private attributes of the builder (\<^verbatim>\<open>_base\<close>, \<^verbatim>\<open>_size\<close>, ...) the prefix \<open>b_\<close>.
  The builder's syrups are a Python \<^verbatim>\<open>set\<close>, a finite set.
\<close>

record CoffeeOrder =
  o_base :: string
  o_size :: string
  o_milk :: string
  o_syrups :: "string list"
  o_sugar :: pynum
  o_iced :: bool
  o_price :: pynum
  o_description :: string

record CoffeeOrderBuilder =
  b_base :: "string option"
  b_size :: "string option"
  b_milk :: string
  b_syrups :: "string fset"
  b_sugar :: pynum
  b_iced :: bool

text \<open>
  A method call yields what it returns or raises, and the state of the builder after the
  call. A statement that raises leaves the state as the statements before it made it.
  The fluent setters return \<^verbatim>\<open>self\<close>: the returned builder is the state after the call.
\<close>

type_synonym 'a result = "(error + 'a) \<times> CoffeeOrderBuilder"

definition py_raise :: "error \<Rightarrow> CoffeeOrderBuilder \<Rightarrow> 'a result" where
  "py_raise e b = (Inl e, b)"

definition return_self :: "CoffeeOrderBuilder \<Rightarrow> CoffeeOrderBuilder result" where
  "return_self b = (Inr b, b)"

text \<open>\<^verbatim>\<open>not v\<close> for an optional string: \<^verbatim>\<open>None\<close> and the empty string are false.\<close>

definition py_not :: "string option \<Rightarrow> bool" where
  "py_not v = (v = None \<or> v = Some [])"

subsection \<open>The rendering of an order\<close>

text \<open>
  \<^verbatim>\<open>CoffeeOrder.__str__\<close>. The price is formatted by the f-string: \<open>frepr\<close> is Python's
  text of a float.
\<close>

definition order_str :: "(pyfloat \<Rightarrow> string) \<Rightarrow> CoffeeOrder \<Rightarrow> string" where
  "order_str frepr ord =
     (if o_description ord \<noteq> [] then o_description ord
      else o_size ord @ '' '' @ o_base ord @ '' - '' @ py_str frepr (o_price ord) @ lit_rouble)"

subsection \<open>The setters\<close>

text \<open>
  The constructor calls \<^verbatim>\<open>reset\<close> on the new object: \<open>new_builder\<close> is the state it
  leaves. \<^verbatim>\<open>reset\<close> assigns every attribute. Each setter tests its argument first and
  assigns only when the test passes.
\<close>

definition new_builder :: CoffeeOrderBuilder where
  "new_builder =
     \<lparr>b_base = None, b_size = None, b_milk = ''none'', b_syrups = {||},
      b_sugar = PyInt 0, b_iced = False\<rparr>"

definition reset :: "CoffeeOrderBuilder \<Rightarrow> CoffeeOrderBuilder result" where
  "reset b =
     return_self (b\<lparr>b_base := None, b_size := None, b_milk := ''none'', b_syrups := {||},
                    b_sugar := PyInt 0, b_iced := False\<rparr>)"

definition set_base :: "string \<Rightarrow> CoffeeOrderBuilder \<Rightarrow> CoffeeOrderBuilder result" where
  "set_base v b =
     (if v \<notin> set CoffeeBase_values then py_raise (ValueError (BadBase v)) b
      else return_self (b\<lparr>b_base := Some v\<rparr>))"

definition set_size :: "string \<Rightarrow> CoffeeOrderBuilder \<Rightarrow> CoffeeOrderBuilder result" where
  "set_size v b =
     (if v \<notin> set CoffeeSize_values then py_raise (ValueError (BadSize v)) b
      else return_self (b\<lparr>b_size := Some v\<rparr>))"

definition set_milk :: "string \<Rightarrow> CoffeeOrderBuilder \<Rightarrow> CoffeeOrderBuilder result" where
  "set_milk v b =
     (if v \<notin> set MilkType_values then py_raise (ValueError (BadMilk v)) b
      else return_self (b\<lparr>b_milk := v\<rparr>))"

text \<open>
  \<^verbatim>\<open>name.lower()\<close> is Python's Unicode lower-casing, not code of this repository: it is
  the parameter \<open>lower\<close>.
\<close>

definition add_syrup ::
  "(string \<Rightarrow> string) \<Rightarrow> string \<Rightarrow> CoffeeOrderBuilder \<Rightarrow> CoffeeOrderBuilder result" where
  "add_syrup lower name b =
     (if fcard (b_syrups b) \<ge> MAX_SYRUPS then py_raise (ValueError SyrupLimit) b
      else return_self (b\<lparr>b_syrups := finsert (lower name) (b_syrups b)\<rparr>))"

definition set_sugar :: "pynum \<Rightarrow> CoffeeOrderBuilder \<Rightarrow> CoffeeOrderBuilder result" where
  "set_sugar teaspoons b =
     (if \<not> (py_le (PyInt 0) teaspoons \<and> py_le teaspoons (PyInt MAX_SUGAR))
      then py_raise (ValueError SugarRange) b
      else return_self (b\<lparr>b_sugar := teaspoons\<rparr>))"

text \<open>The parameter of \<^verbatim>\<open>set_iced\<close> defaults to \<^verbatim>\<open>True\<close>: a call without argument is \<open>set_iced True\<close>.\<close>

definition set_iced :: "bool \<Rightarrow> CoffeeOrderBuilder \<Rightarrow> CoffeeOrderBuilder result" where
  "set_iced flag b = return_self (b\<lparr>b_iced := flag\<rparr>)"

definition clear_extras :: "CoffeeOrderBuilder \<Rightarrow> CoffeeOrderBuilder result" where
  "clear_extras b =
     return_self (b\<lparr>b_milk := ''none'', b_syrups := {||}, b_sugar := PyInt 0, b_iced := False\<rparr>)"

subsection \<open>Price and description\<close>

text \<open>
  \<^verbatim>\<open>_calculate_price\<close>: the base price is an \<^verbatim>\<open>int\<close>; the product with the float
  multiplier and every later sum are float operations, whose \<^verbatim>\<open>int\<close> operand is
  converted first. Neither this method nor \<^verbatim>\<open>_generate_description\<close> assigns to the
  builder. \<open>the\<close> is applied only behind the \<open>py_not\<close> test, to a value that is set.
\<close>

definition calculate_price :: "CoffeeOrderBuilder \<Rightarrow> error + pynum" where
  "calculate_price b =
     (if py_not (b_base b) \<or> py_not (b_size b) then Inr (PyFloat (Fin 0))
      else case subscript BASE_PRICES (the (b_base b)) of
        Inl e \<Rightarrow> Inl e
      | Inr base_price \<Rightarrow>
         (case subscript SIZE_MULTIPLIERS (the (b_size b)) of
            Inl e \<Rightarrow> Inl e
          | Inr multiplier \<Rightarrow>
             (case subscript MILK_PRICES (b_milk b) of
                Inl e \<Rightarrow> Inl e
              | Inr milk_price \<Rightarrow>
                 (let p1 = fmul (float_of_int base_price) multiplier;
                      p2 = fadd p1 (float_of_int milk_price);
                      p3 = fadd p2 (float_of_int (int (fcard (b_syrups b)) * SYRUP_PRICE));
                      p4 = (if b_iced b then fadd p3 ICED_PRICE else p3)
                  in Inr (PyFloat (Fin (py_round p4 2)))))))"

definition milk_names :: "(string \<times> string) list" where
  "milk_names =
     [(''whole'', lit_tselnoe), (''skim'', lit_obezzhirennoe), (''oat'', lit_ovsyanoe),
      (''soy'', lit_soevoe)]"

definition sugar_word :: "pynum \<Rightarrow> string" where
  "sugar_word s =
     (if py_eq s (PyInt 1) then lit_lozhka
      else if py_le (PyInt 2) s \<and> py_le s (PyInt 4) then lit_lozhki
      else lit_lozhek)"

definition generate_description :: "(pyfloat \<Rightarrow> string) \<Rightarrow> CoffeeOrderBuilder \<Rightarrow> string" where
  "generate_description frepr b =
     (if py_not (b_base b) \<or> py_not (b_size b) then []
      else join '' ''
        ([the (b_size b), the (b_base b)]
         @ (if b_milk b \<noteq> ''none''
            then [lit_s @ '' '' @ dict_get milk_names (b_milk b) (b_milk b) @ '' '' @ lit_molokom]
            else [])
         @ (if b_syrups b \<noteq> {||}
            then [''+ '' @ lit_siropy @ '': '' @ join '', '' (sorted_list_of_fset (b_syrups b))]
            else [])
         @ (if b_iced b then [''('' @ lit_so_ldom @ '')''] else [])
         @ (if py_gt (b_sugar b) (PyInt 0)
            then [py_str frepr (b_sugar b) @ '' '' @ sugar_word (b_sugar b) @ '' '' @ lit_sakhara]
            else [])))"

subsection \<open>build\<close>

definition build :: "(pyfloat \<Rightarrow> string) \<Rightarrow> CoffeeOrderBuilder \<Rightarrow> CoffeeOrder result" where
  "build frepr b =
     (if py_not (b_base b) then py_raise (ValueError NoBase) b
      else if py_not (b_size b) then py_raise (ValueError NoSize) b
      else if py_gt (b_sugar b) (PyInt MAX_SUGAR) then py_raise (ValueError SugarOver) b
      else if fcard (b_syrups b) > MAX_SYRUPS then py_raise (ValueError SyrupOver) b
      else case calculate_price b of
        Inl e \<Rightarrow> py_raise e b
      | Inr p \<Rightarrow>
          (Inr \<lparr>o_base = the (b_base b), o_size = the (b_size b), o_milk = b_milk b,
                o_syrups = sorted_list_of_fset (b_syrups b), o_sugar = b_sugar b,
                o_iced = b_iced b, o_price = p,
                o_description = generate_description frepr b\<rparr>,
           b))"

subsection \<open>Sequences of calls\<close>

text \<open>
  The public operations as data, what a call raises and the state it leaves behind, and
  the state after a sequence of calls on one builder that all succeed (\<open>None\<close> when one
  of them raises).
\<close>

datatype call =
    SetBase string
  | SetSize string
  | SetMilk string
  | AddSyrup string
  | SetSugar pynum
  | SetIced bool
  | ClearExtras
  | Reset
  | Build

fun outcome :: "'a result \<Rightarrow> error option \<times> CoffeeOrderBuilder" where
  "outcome (Inl e, b) = (Some e, b)"
| "outcome (Inr _, b) = (None, b)"

fun perform ::
  "(string \<Rightarrow> string) \<Rightarrow> (pyfloat \<Rightarrow> string) \<Rightarrow> call \<Rightarrow> CoffeeOrderBuilder
     \<Rightarrow> error option \<times> CoffeeOrderBuilder" where
  "perform lower frepr (SetBase v) b = outcome (set_base v b)"
| "perform lower frepr (SetSize v) b = outcome (set_size v b)"
| "perform lower frepr (SetMilk v) b = outcome (set_milk v b)"
| "perform lower frepr (AddSyrup n) b = outcome (add_syrup lower n b)"
| "perform lower frepr (SetSugar t) b = outcome (set_sugar t b)"
| "perform lower frepr (SetIced f) b = outcome (set_iced f b)"
| "perform lower frepr ClearExtras b = outcome (clear_extras b)"
| "perform lower frepr Reset b = outcome (reset b)"
| "perform lower frepr Build b = outcome (build frepr b)"

fun run_ok ::
  "(string \<Rightarrow> string) \<Rightarrow> (pyfloat \<Rightarrow> string) \<Rightarrow> call list \<Rightarrow> CoffeeOrderBuilder
     \<Rightarrow> CoffeeOrderBuilder option" where
  "run_ok lower frepr [] b = Some b"
| "run_ok lower frepr (c # cs) b =
     (case perform lower frepr c b of
        (Some e, _) \<Rightarrow> None
      | (None, b') \<Rightarrow> run_ok lower frepr cs b')"

text \<open>The data model's constraints on a builder: what the setters maintain.\<close>

definition invariant :: "CoffeeOrderBuilder \<Rightarrow> bool" where
  "invariant b =
     ((case b_base b of None \<Rightarrow> True | Some v \<Rightarrow> v \<in> set CoffeeBase_values)
      \<and> (case b_size b of None \<Rightarrow> True | Some v \<Rightarrow> v \<in> set CoffeeSize_values)
      \<and> b_milk b \<in> set MilkType_values
      \<and> fcard (b_syrups b) \<le> MAX_SYRUPS
      \<and> py_le (PyInt 0) (b_sugar b) \<and> py_le (b_sugar b) (PyInt MAX_SUGAR))"

subsection \<open>Instances for examples\<close>

text \<open>
  On ASCII text \<^verbatim>\<open>str.lower\<close> is this function; it instantiates the parameter \<open>lower\<close>
  in the examples, whose syrup names are lower-case already or ASCII.
\<close>

definition ascii_lower :: "string \<Rightarrow> string" where
  "ascii_lower s =
     map (\<lambda>c. if CHR ''A'' \<le> c \<and> c \<le> CHR ''Z'' then char_of (of_char c + (32::nat)) else c) s"

text \<open>\<^verbatim>\<open>repr(0.0)\<close>; no other float is printed in the examples.\<close>

definition repr_zero :: "pyfloat \<Rightarrow> string" where
  "repr_zero f = (if f = Fin 0 then ''0.0'' else [])"

text \<open>
  The builder after the calls of the price test with two syrups and ice (cappuccino, large,
  two syrups, iced), and after the calls of the description test (latte, medium, oat milk,
  one syrup, one spoon of sugar, iced).
\<close>

definition cappuccino_calls :: "call list" where
  "cappuccino_calls =
     [Reset, SetBase ''cappuccino'', SetSize ''large'', AddSyrup lit_karamel, AddSyrup lit_vanil,
      SetIced True]"

definition cappuccino_state :: CoffeeOrderBuilder where
  "cappuccino_state =
     \<lparr>b_base = Some ''cappuccino'', b_size = Some ''large'', b_milk = ''none'',
      b_syrups = {|lit_karamel, lit_vanil|}, b_sugar = PyInt 0, b_iced = True\<rparr>"

definition latte_calls :: "call list" where
  "latte_calls =
     [Reset, SetBase ''latte'', SetSize ''medium'', SetMilk ''oat'', AddSyrup lit_karamel,
      SetSugar (PyInt 1), SetIced True]"

definition latte_state :: CoffeeOrderBuilder where
  "latte_state =
     \<lparr>b_base = Some ''latte'', b_size = Some ''medium'', b_milk = ''oat'',
      b_syrups = {|lit_karamel|}, b_sugar = PyInt 1, b_iced = True\<rparr>"

section \<open>The specification's price and description\<close>

text \<open>
  These definitions follow the words of the specification, not the code; the theorems
  below compare them with \<open>calculate_price\<close> and \<open>generate_description\<close>.

  The price tables and the price formula in exact rational arithmetic: base price times
  size multiplier, plus milk price, plus 40 for each syrup, plus 0.2 when iced, rounded to
  two decimals (ties to even). A key outside a table has no price in the specification;
  the tables give 0 there, and the theorems use them on the closed sets only.
\<close>

definition spec_base_price :: "string \<Rightarrow> int" where
  "spec_base_price bs =
     (if bs = ''espresso'' then 200
      else if bs = ''americano'' then 250
      else if bs = ''latte'' then 300
      else if bs = ''cappuccino'' then 320
      else 0)"

definition spec_size_multiplier :: "string \<Rightarrow> rat" where
  "spec_size_multiplier sz =
     (if sz = ''small'' then 1
      else if sz = ''medium'' then 12 / 10
      else if sz = ''large'' then 14 / 10
      else 0)"

definition spec_milk_price :: "string \<Rightarrow> int" where
  "spec_milk_price mk =
     (if mk = ''none'' then 0
      else if mk = ''whole'' then 30
      else if mk = ''skim'' then 30
      else if mk = ''oat'' then 60
      else if mk = ''soy'' then 50
      else 0)"

definition round_2dp :: "rat \<Rightarrow> rat" where
  "round_2dp x = of_int (round_half_even (x * 100)) / 100"

definition spec_price :: "string \<Rightarrow> string \<Rightarrow> string \<Rightarrow> nat \<Rightarrow> bool \<Rightarrow> rat" where
  "spec_price bs sz mk k ic =
     round_2dp (of_int (spec_base_price bs) * spec_size_multiplier sz
                + of_int (spec_milk_price mk) + of_nat k * 40 + (if ic then 2 / 10 else 0))"

text \<open>
  The description: the segments, joined by single spaces. \<open>names\<close> is the sorted list of
  syrup names and \<open>n\<close> the sugar. The unit word is fixed for 1 to 5 spoons only; the
  specification names no word for another count (the empty text here).
\<close>

definition spec_milk_name :: "string \<Rightarrow> string" where
  "spec_milk_name m =
     (if m = ''whole'' then lit_tselnoe
      else if m = ''skim'' then lit_obezzhirennoe
      else if m = ''oat'' then lit_ovsyanoe
      else if m = ''soy'' then lit_soevoe
      else m)"

definition spec_sugar_unit :: "int \<Rightarrow> string" where
  "spec_sugar_unit n =
     (if n = 1 then lit_lozhka
      else if n \<in> {2, 3, 4} then lit_lozhki
      else if n = 5 then lit_lozhek
      else [])"

definition spec_description ::
  "string \<Rightarrow> string \<Rightarrow> string \<Rightarrow> string list \<Rightarrow> bool \<Rightarrow> int \<Rightarrow> string" where
  "spec_description sz bs mk names ic n =
     join '' ''
       ([sz @ '' '' @ bs]
        @ (if mk \<noteq> ''none'' then [lit_s @ '' '' @ spec_milk_name mk @ '' '' @ lit_molokom] else [])
        @ (if names \<noteq> [] then [''+ '' @ lit_siropy @ '': '' @ join '', '' names] else [])
        @ (if ic then [''('' @ lit_so_ldom @ '')''] else [])
        @ (if n > 0 then [str_int n @ '' '' @ spec_sugar_unit n @ '' '' @ lit_sakhara] else []))"

section \<open>Rounding\<close>

text \<open>
  Rounding to the nearest integer is exact on integers and errs by at most one half.
\<close>

lemma round_half_even_of_int: "round_half_even (of_int k) = k"
  by (simp add: round_half_even_def)

lemma round_half_even_near:
  assumes "\<bar>y - of_int k\<bar> < 1 / 2"
  shows "round_half_even y = k"
proof (cases "of_int k \<le> y")
  case True
  with assms have "\<lfloor>y\<rfloor> = k" by (intro floor_unique) auto
  with assms True show ?thesis by (simp add: round_half_even_def Let_def)
next
  case False
  with assms have f: "\<lfloor>y\<rfloor> = k - 1" by (intro floor_unique) auto
  from assms False have "1 / 2 < y - of_int (k - 1)" by simp
  with f show ?thesis by (simp add: round_half_even_def Let_def)
qed

lemma round_half_even_error: "\<bar>of_int (round_half_even y) - y\<bar> \<le> 1 / 2"
proof -
  have "of_int \<lfloor>y\<rfloor> \<le> y" "y < of_int \<lfloor>y\<rfloor> + 1" by linarith+
  then show ?thesis
    by (auto simp add: round_half_even_def Let_def)
qed

text \<open>
  \<open>fl\<close> is rounding to the nearest number with a 53-bit significand: \<open>binade x\<close> is the
  exponent of \<open>x\<close>, the result is an integer significand of magnitude between \<open>2 ^ 52\<close>
  and \<open>2 ^ 53\<close> scaled by \<open>2 ^ (binade x - 52)\<close>, and it lies within half a unit of the
  last place of \<open>x\<close>. The literals of the price tables get the binary64 values of
  \<^verbatim>\<open>0.2\<close>, \<^verbatim>\<open>1.2\<close> and \<^verbatim>\<open>1.4\<close> (\<^verbatim>\<open>0x3FC999999999999A\<close>, \<^verbatim>\<open>0x3FF3333333333333\<close>,
  \<^verbatim>\<open>0x3FF6666666666666\<close>).
\<close>

lemma pow2_powi: "pow2 k = 2 powi k"
  by (simp add: pow2_def power_int_def inverse_eq_divide power_one_over)

lemma pow2_pos: "0 < pow2 k"
  by (simp add: pow2_def)

lemma pow2_add: "pow2 (j + k) = pow2 j * pow2 k"
  by (simp add: pow2_powi power_int_add)

lemma binade_bounds:
  assumes "x \<noteq> 0"
  shows "pow2 (binade x) \<le> \<bar>x\<bar>" "\<bar>x\<bar> < pow2 (binade x + 1)"
proof -
  define a where "a = \<bar>x\<bar>"
  from assms have a: "0 < a" by (simp add: a_def)
  have "pow2 (binade x) \<le> a \<and> a < pow2 (binade x + 1)"
  proof (cases "1 \<le> a")
    case True
    define n where "n = nat \<lfloor>a\<rfloor>"
    define k where "k = floorlog 2 n"
    from True have n: "0 < n" by (simp add: n_def)
    from floorlog_bounds [OF n, of 2] have b: "2 ^ (k - 1) \<le> n" "n < 2 ^ k"
      by (simp_all add: k_def)
    from n have k: "0 < k" unfolding k_def using floorlog_eq_zero_iff [of 2 n] by auto
    have e: "binade x = int k - 1"
      using True by (simp add: binade_def a_def [symmetric] n_def k_def)
    have na: "of_nat n \<le> a" "a < of_nat n + 1"
      using True by (simp_all add: n_def) linarith+
    from b(1) have "(of_nat (2 ^ (k - 1)) :: rat) \<le> of_nat n" by (simp only: of_nat_le_iff)
    then have "(2::rat) ^ (k - 1) \<le> of_nat n" by simp
    with na(1) have lo: "(2::rat) ^ (k - 1) \<le> a" by linarith
    from b(2) have "n + 1 \<le> 2 ^ k" by simp
    then have "(of_nat (n + 1) :: rat) \<le> of_nat (2 ^ k)" by (simp only: of_nat_le_iff)
    then have "(of_nat n :: rat) + 1 \<le> 2 ^ k" by simp
    with na(2) have hi: "a < (2::rat) ^ k" by linarith
    from k have "nat (int k - 1) = k - 1" by simp
    with lo hi k show ?thesis by (simp add: e pow2_def)
  next
    case False
    define m where "m = nat (\<lceil>1 / a\<rceil> - 1)"
    define k where "k = floorlog 2 m"
    from False a have y: "1 < 1 / a" by simp
    then have "1 < \<lceil>1 / a\<rceil>" by (simp only: one_less_ceiling)
    then have c: "2 \<le> \<lceil>1 / a\<rceil>" by linarith
    then have m: "0 < m" unfolding m_def by linarith
    from floorlog_bounds [OF m, of 2] have b: "2 ^ (k - 1) \<le> m" "m < 2 ^ k"
      by (simp_all add: k_def)
    from m have k: "0 < k" unfolding k_def using floorlog_eq_zero_iff [of 2 m] by auto
    have e: "binade x = - int k"
      using False by (simp add: binade_def a_def [symmetric] m_def k_def)
    have cm: "\<lceil>1 / a\<rceil> = int m + 1" unfolding m_def using c by linarith
    from b(2) have "m + 1 \<le> 2 ^ k" by simp
    then have "int (m + 1) \<le> int (2 ^ k)" by (simp only: of_nat_le_iff)
    then have "int m + 1 \<le> 2 ^ k" by simp
    then have "\<lceil>1 / a\<rceil> \<le> 2 ^ k" by (simp add: cm)
    then have "1 / a \<le> 2 ^ k" by (simp add: ceiling_le_iff)
    then have lo: "1 / 2 ^ k \<le> a" using a by (simp add: field_simps)
    from b(1) have "int (2 ^ (k - 1)) \<le> int m" by (simp only: of_nat_le_iff)
    then have "(2::int) ^ (k - 1) < \<lceil>1 / a\<rceil>" by (simp add: cm)
    then have "2 ^ (k - 1) < 1 / a" by (simp add: less_ceiling_iff)
    then have hi: "a < 1 / 2 ^ (k - 1)" using a by (simp add: field_simps)
    from k have "nat (int k - 1) = k - 1" by simp
    with lo hi k show ?thesis by (auto simp add: e pow2_def)
  qed
  then show "pow2 (binade x) \<le> \<bar>x\<bar>" "\<bar>x\<bar> < pow2 (binade x + 1)"
    by (simp_all add: a_def)
qed

lemma fl_half_ulp:
  assumes "x \<noteq> 0"
  shows "\<bar>fl x - x\<bar> \<le> pow2 (binade x - 53)"
proof -
  define s where "s = pow2 (52 - binade x)"
  have spos: "0 < s" by (simp add: s_def pow2_pos)
  have "pow2 (binade x - 53) * (2 * s) = pow2 (binade x - 53) * pow2 1 * pow2 (52 - binade x)"
    by (simp add: s_def pow2_def)
  also have "\<dots> = pow2 ((binade x - 53) + 1 + (52 - binade x))"
    by (simp only: pow2_add)
  also have "\<dots> = 1" by (simp add: pow2_def)
  finally have u: "pow2 (binade x - 53) = (1 / 2) / s"
    using spos by (simp add: field_simps)
  from assms have "fl x - x = (of_int (round_half_even (x * s)) - x * s) / s"
    using spos by (simp add: fl_def s_def [symmetric] Let_def field_simps)
  then have "\<bar>fl x - x\<bar> = \<bar>of_int (round_half_even (x * s)) - x * s\<bar> / s"
    using spos by (simp add: abs_divide)
  also have "\<dots> \<le> (1 / 2) / s"
    using round_half_even_error [of "x * s"] spos by (intro divide_right_mono) auto
  finally show ?thesis by (simp only: u)
qed

lemma fl_significand:
  assumes "x \<noteq> 0"
  shows "\<exists>m::int. fl x = of_int m * pow2 (binade x - 52) \<and> 2 ^ 52 \<le> \<bar>m\<bar> \<and> \<bar>m\<bar> \<le> 2 ^ 53"
proof -
  define s where "s = pow2 (52 - binade x)"
  define m where "m = round_half_even (x * s)"
  have spos: "0 < s" by (simp add: s_def pow2_pos)
  have "pow2 (binade x - 52) * s = pow2 ((binade x - 52) + (52 - binade x))"
    by (simp only: s_def pow2_add)
  then have inv: "pow2 (binade x - 52) * s = 1" by (simp add: pow2_def)
  then have i2: "pow2 (binade x - 52) = 1 / s" using spos by (simp add: field_simps)
  have f: "fl x = of_int m * pow2 (binade x - 52)"
    using assms by (simp add: fl_def s_def [symmetric] m_def Let_def i2)
  have "pow2 (binade x) * s = pow2 (binade x + (52 - binade x))"
    by (simp only: s_def pow2_add)
  then have lo_s: "pow2 (binade x) * s = 2 ^ 52" by (simp add: pow2_def)
  have "pow2 (binade x + 1) * s = pow2 ((binade x + 1) + (52 - binade x))"
    by (simp only: s_def pow2_add)
  then have hi_s: "pow2 (binade x + 1) * s = 2 ^ 53" by (simp add: pow2_def)
  from binade_bounds [OF assms] spos
  have "pow2 (binade x) * s \<le> \<bar>x\<bar> * s" "\<bar>x\<bar> * s < pow2 (binade x + 1) * s"
    by simp_all
  then have xs: "2 ^ 52 \<le> \<bar>x * s\<bar>" "\<bar>x * s\<bar> < 2 ^ 53"
    using spos by (simp_all add: lo_s hi_s abs_mult)
  from round_half_even_error [of "x * s"] have e: "\<bar>of_int m - x * s\<bar> \<le> 1 / 2"
    by (simp add: m_def)
  from xs e have "(2::rat) ^ 52 - 1 / 2 \<le> \<bar>of_int m\<bar>" "\<bar>(of_int m :: rat)\<bar> < 2 ^ 53 + 1 / 2"
    by linarith+
  then have "(of_int (2 ^ 52 - 1) :: rat) < of_int \<bar>m\<bar>"
    "(of_int \<bar>m\<bar> :: rat) < of_int (2 ^ 53 + 1)"
    by simp_all
  then have "(2::int) ^ 52 - 1 < \<bar>m\<bar>" "\<bar>m\<bar> < 2 ^ 53 + 1"
    by (simp_all only: of_int_less_iff)
  then have "(2::int) ^ 52 \<le> \<bar>m\<bar>" "\<bar>m\<bar> \<le> 2 ^ 53"
    by simp_all
  with f show ?thesis by blast
qed

lemma float_literal_values:
  "float_lit (2 / 10) = 3602879701896397 / 2 ^ 54"
  "float_lit (12 / 10) = 5404319552844595 / 2 ^ 52"
  "float_lit (14 / 10) = 6305039478318694 / 2 ^ 52"
  by code_simp+

text \<open>
  On the prices of the tables: \<open>fl\<close> is exact on the integers below \<open>2 ^ 53\<close> and errs by
  at most \<open>2 ^ -44\<close> between 1 and 1024.
\<close>

lemma binade_ge_1:
  assumes "1 \<le> x" "x < 2 ^ k"
  shows "0 \<le> binade x" "binade x < int k"
proof -
  let ?n = "nat \<lfloor>x\<rfloor>"
  from assms have n: "0 < ?n" by simp
  have "\<lfloor>x\<rfloor> < 2 ^ k" using assms(2) by (simp add: floor_less_iff)
  then have "?n < 2 ^ k" using n by (simp add: nat_less_iff)
  then have "floorlog 2 ?n \<le> k" by (intro floorlog_leI) auto
  moreover have "floorlog 2 ?n \<noteq> 0" using n by (simp add: floorlog_eq_zero_iff)
  ultimately show "0 \<le> binade x" "binade x < int k"
    using assms(1) by (auto simp add: binade_def Let_def)
qed

lemma fl_of_int:
  assumes "0 \<le> n" "n < 2 ^ 53"
  shows "fl (of_int n) = of_int n"
proof (cases "n = 0")
  case True
  then show ?thesis by (simp add: fl_def)
next
  case False
  with assms have x: "(1::rat) \<le> of_int n" "(of_int n :: rat) < 2 ^ 53"
    by (simp_all add: of_int_less_numeral_power_cancel_iff)
  define j where "j = nat (52 - binade (of_int n))"
  from binade_ge_1 [OF x] have "0 \<le> 52 - binade (of_int n)" by simp
  then have s: "pow2 (52 - binade (of_int n)) = of_int (2 ^ j)"
    by (simp add: pow2_def j_def)
  have "round_half_even (of_int n * of_int (2 ^ j)) = n * 2 ^ j"
    using round_half_even_of_int [of "n * 2 ^ j"] by simp
  with False show ?thesis
    by (simp add: fl_def s Let_def)
qed

lemma fl_error:
  assumes "1 \<le> x" "x < 1024"
  shows "\<bar>fl x - x\<bar> \<le> 1 / 2 ^ 44"
proof -
  define s where "s = pow2 (52 - binade x)"
  from assms have "x < 2 ^ 10" by simp
  from binade_ge_1 [OF assms(1) this] have e: "0 \<le> binade x" "binade x < 10" by simp_all
  then have "(2::rat) ^ 43 \<le> 2 ^ nat (52 - binade x)"
    by (intro power_increasing) auto
  with e have s43: "2 ^ 43 \<le> s" by (simp add: s_def pow2_def)
  then have spos: "0 < s" by (rule less_le_trans [rotated]) simp
  from assms have "x \<noteq> 0" by auto
  then have "fl x - x = (of_int (round_half_even (x * s)) - x * s) / s"
    using spos by (simp add: fl_def s_def [symmetric] Let_def field_simps)
  then have "\<bar>fl x - x\<bar> = \<bar>of_int (round_half_even (x * s)) - x * s\<bar> / s"
    using spos by (simp add: abs_divide)
  also have "\<dots> \<le> (1 / 2) / s"
    using round_half_even_error [of "x * s"] spos by (intro divide_right_mono) auto
  also have "\<dots> \<le> (1 / 2) / 2 ^ 43"
    using s43 by (intro divide_left_mono) auto
  finally show ?thesis by simp
qed

lemma iced_price_value: "ICED_PRICE = 3602879701896397 / 18014398509481984"
  by code_simp

lemma py_round_of_int:
  assumes "0 \<le> n" "n < 2 ^ 53"
  shows "py_round (of_int n) 2 = of_int n"
proof -
  have "round_half_even (of_int n * 10 ^ 2) = n * 100"
    using round_half_even_of_int [of "n * 100"] by simp
  then show ?thesis
    using fl_of_int [OF assms] by (simp add: py_round_def)
qed

lemma py_round_iced:
  assumes "1 \<le> n" "n \<le> 1000"
  shows "py_round (fadd (of_int n) ICED_PRICE) 2 = fl (of_int n + 1 / 5)"
proof -
  define x :: rat where "x = of_int n + ICED_PRICE"
  have c: "ICED_PRICE - 1 / 5 = 1 / 90071992547409920"
    by (simp add: iced_price_value)
  from assms have "1 \<le> x" "x < 1024"
    by (simp_all add: x_def iced_price_value)
  from fl_error [OF this] have "\<bar>fl x - x\<bar> \<le> 1 / 2 ^ 44" .
  moreover have "fl x - (of_int n + 1 / 5) = (fl x - x) + (ICED_PRICE - 1 / 5)"
    by (simp add: x_def)
  ultimately have "\<bar>fl x - (of_int n + 1 / 5)\<bar> \<le> 1 / 2 ^ 44 + 1 / 90071992547409920"
    using c by linarith
  then have "\<bar>fl x * 100 - of_int (n * 100 + 20)\<bar> < 1 / 2"
    by (simp add: abs_if split: if_splits)
  from round_half_even_near [OF this]
  have "round_half_even (fl x * 10 ^ 2) = n * 100 + 20" by simp
  then have "py_round (fl x) 2 = fl (of_int (n * 100 + 20) / 10 ^ 2)"
    by (simp add: py_round_def)
  also have "(of_int (n * 100 + 20) :: rat) / 10 ^ 2 = of_int n + 1 / 5" by simp
  finally show ?thesis
    by (simp add: fadd_def x_def)
qed

lemma products:
  "fmul (float_of_int 200) (float_lit 1) = 200"
  "fmul (float_of_int 200) (float_lit (6 / 5)) = 240"
  "fmul (float_of_int 200) (float_lit (7 / 5)) = 280"
  "fmul (float_of_int 250) (float_lit 1) = 250"
  "fmul (float_of_int 250) (float_lit (6 / 5)) = 300"
  "fmul (float_of_int 250) (float_lit (7 / 5)) = 350"
  "fmul (float_of_int 300) (float_lit 1) = 300"
  "fmul (float_of_int 300) (float_lit (6 / 5)) = 360"
  "fmul (float_of_int 300) (float_lit (7 / 5)) = 420"
  "fmul (float_of_int 320) (float_lit 1) = 320"
  "fmul (float_of_int 320) (float_lit (6 / 5)) = 384"
  "fmul (float_of_int 320) (float_lit (7 / 5)) = 448"
  by code_simp+

lemma fadd_ints:
  assumes "0 \<le> p" "0 \<le> q" "p + q < 2 ^ 53"
  shows "fadd (of_int p) (float_of_int q) = of_int (p + q)"
proof -
  from assms have "q < 2 ^ 53" by simp
  from fl_of_int [OF assms(2) this] have "float_of_int q = of_int q"
    by (simp add: float_of_int_def)
  moreover from assms have "0 \<le> p + q" by simp
  from fl_of_int [OF this assms(3)] have "fl (of_int p + of_int q) = of_int (p + q)" by simp
  ultimately show ?thesis by (simp add: fadd_def)
qed

lemma base_lookup:
  "bs \<in> set CoffeeBase_values \<Longrightarrow> subscript BASE_PRICES bs = Inr (spec_base_price bs)"
  by (auto simp add: CoffeeBase_values_def BASE_PRICES_def subscript_def spec_base_price_def)

lemma size_lookup:
  "sz \<in> set CoffeeSize_values \<Longrightarrow>
     subscript SIZE_MULTIPLIERS sz = Inr (float_lit (spec_size_multiplier sz))"
  by (auto simp add: CoffeeSize_values_def SIZE_MULTIPLIERS_def subscript_def
      spec_size_multiplier_def)

lemma milk_lookup:
  "mk \<in> set MilkType_values \<Longrightarrow>
     subscript MILK_PRICES mk = Inr (spec_milk_price mk)
     \<and> 0 \<le> spec_milk_price mk \<and> spec_milk_price mk \<le> 60"
  by (auto simp add: MilkType_values_def MILK_PRICES_def subscript_def spec_milk_price_def)

lemma product_exact:
  assumes "bs \<in> set CoffeeBase_values" "sz \<in> set CoffeeSize_values"
  shows "\<exists>P::int. 200 \<le> P \<and> P \<le> 448
    \<and> fmul (float_of_int (spec_base_price bs)) (float_lit (spec_size_multiplier sz)) = of_int P
    \<and> of_int (spec_base_price bs) * spec_size_multiplier sz = of_int P"
proof -
  have "sz = ''small'' \<or> sz = ''medium'' \<or> sz = ''large''"
    using assms(2) by (auto simp add: CoffeeSize_values_def)
  moreover have "bs = ''espresso'' \<or> bs = ''americano'' \<or> bs = ''latte'' \<or> bs = ''cappuccino''"
    using assms(1) by (auto simp add: CoffeeBase_values_def)
  ultimately show ?thesis
    by (elim disjE; simp add: spec_base_price_def spec_size_multiplier_def products)
qed

section \<open>The setters\<close>

text \<open>
  Claim C8. For every builder state, \<^verbatim>\<open>clear_extras\<close> sets milk to \<^verbatim>\<open>"none"\<close>, the
  syrups to the empty set, sugar to 0 and iced to false, leaves base and size as they
  were, and returns the builder.
\<close>

theorem clear_extras_frame:
  "b_milk (snd (clear_extras b)) = ''none''
   \<and> b_syrups (snd (clear_extras b)) = {||}
   \<and> b_sugar (snd (clear_extras b)) = PyInt 0
   \<and> b_iced (snd (clear_extras b)) = False
   \<and> b_base (snd (clear_extras b)) = b_base b
   \<and> b_size (snd (clear_extras b)) = b_size b
   \<and> fst (clear_extras b) = Inr (snd (clear_extras b))"
  by (simp add: clear_extras_def return_self_def)

text \<open>
  Claim C6. For every integer \<open>n\<close>, \<^verbatim>\<open>set_sugar(n)\<close> succeeds exactly when \<open>n\<close> is one of
  0, 1, 2, 3, 4, 5, and then stores \<open>n\<close>; for every other integer it raises the
  \<^verbatim>\<open>ValueError\<close> of the range test and the builder, its sugar included, is as before.
\<close>

theorem set_sugar_int:
  "set_sugar (PyInt n) b =
     (if n \<in> {0, 1, 2, 3, 4, 5}
      then (Inr (b\<lparr>b_sugar := PyInt n\<rparr>), b\<lparr>b_sugar := PyInt n\<rparr>)
      else (Inl (ValueError SugarRange), b))"
  by (auto simp add: set_sugar_def py_le_def MAX_SUGAR_def py_raise_def return_self_def)

text \<open>
  Claim C10, as amended. The validation of \<^verbatim>\<open>set_sugar\<close> is the bound test
  \<^verbatim>\<open>0 <= teaspoons <= 5\<close> alone, with no test for integrality: for every int or float
  \<open>v\<close> the call raises exactly when \<open>v < 0\<close>, or \<open>v > 5\<close>, or \<open>v\<close> is NaN (for which both
  comparisons of the test are false); every other value, such as 2.5, is accepted and
  stored as the builder's sugar.
\<close>

theorem set_sugar_bound_check:
  "set_sugar v b =
     (if v = PyFloat NaN \<or> py_lt v (PyInt 0) \<or> py_gt v (PyInt 5)
      then (Inl (ValueError SugarRange), b)
      else (Inr (b\<lparr>b_sugar := v\<rparr>), b\<lparr>b_sugar := v\<rparr>))
   \<and> set_sugar (PyFloat (Fin (5 / 2))) b
       = (Inr (b\<lparr>b_sugar := PyFloat (Fin (5 / 2))\<rparr>), b\<lparr>b_sugar := PyFloat (Fin (5 / 2))\<rparr>)"
proof -
  have le_iff: "py_le x y \<longleftrightarrow> x \<noteq> PyFloat NaN \<and> y \<noteq> PyFloat NaN \<and> \<not> py_lt y x" for x y
    by (cases x; cases y; cases "as_float x"; cases "as_float y")
      (auto simp add: py_le_def py_lt_def)
  show ?thesis
    by (auto simp add: set_sugar_def le_iff py_gt_def MAX_SUGAR_def py_raise_def return_self_def
        py_lt_def)
qed

text \<open>
  Claim C10 as first stated, that the call raises exactly when \<open>v < 0\<close> or \<open>v > 5\<close>,
  fails for the float NaN: it is rejected, and it is neither below 0 nor above 5.
\<close>

theorem set_sugar_nan_counterexample:
  "fst (set_sugar (PyFloat NaN) new_builder) = Inl (ValueError SugarRange)
   \<and> \<not> py_lt (PyFloat NaN) (PyInt 0)
   \<and> \<not> py_gt (PyFloat NaN) (PyInt 5)"
  by (simp add: set_sugar_def py_le_def py_lt_def py_gt_def py_raise_def)

text \<open>
  Claim C3. For every builder state, \<^verbatim>\<open>add_syrup(name)\<close> raises the \<^verbatim>\<open>ValueError\<close> of
  the syrup limit whenever the builder holds 4 syrups already (or more), also when the
  lower-cased name is one of them; with fewer than 4 syrups and the lower-cased name
  present the call succeeds and changes neither the set nor its size; otherwise the
  lower-cased name is inserted, and the set grows by one.
\<close>

theorem add_syrup_cases:
  "add_syrup lower name b =
     (if fcard (b_syrups b) \<ge> 4 then (Inl (ValueError SyrupLimit), b)
      else if lower name |\<in>| b_syrups b then (Inr b, b)
      else (Inr (b\<lparr>b_syrups := finsert (lower name) (b_syrups b)\<rparr>),
            b\<lparr>b_syrups := finsert (lower name) (b_syrups b)\<rparr>))
   \<and> fcard (b_syrups (snd (add_syrup lower name b))) =
     (if fcard (b_syrups b) \<ge> 4 \<or> lower name |\<in>| b_syrups b then fcard (b_syrups b)
      else fcard (b_syrups b) + 1)"
  by (auto simp add: add_syrup_def MAX_SYRUPS_def py_raise_def return_self_def finsert_absorb
      fcard_finsert_if)

section \<open>build and the rendering of an order\<close>

text \<open>
  Claim C4. For every builder state, \<^verbatim>\<open>build\<close> raises a \<^verbatim>\<open>ValueError\<close> when base or
  size is unset (\<open>py_not\<close>: \<^verbatim>\<open>None\<close>, as after construction or \<^verbatim>\<open>reset\<close>). The two
  messages differ, and base is reported before size: the error names the base when the
  base is unset, whether or not the size is set, and names the size when only the size
  is unset.
\<close>

theorem build_missing_field:
  assumes "py_not (b_base b) \<or> py_not (b_size b)"
  shows "build frepr b = (Inl (ValueError (if py_not (b_base b) then NoBase else NoSize)), b)"
  using assms by (auto simp add: build_def py_raise_def)

theorem build_missing_field_witness:
  "build repr_zero (snd (set_base ''latte'' new_builder))
     = (Inl (ValueError NoSize), snd (set_base ''latte'' new_builder))
   \<and> build repr_zero new_builder = (Inl (ValueError NoBase), new_builder)
   \<and> build repr_zero (snd (set_size ''medium'' new_builder))
     = (Inl (ValueError NoBase), snd (set_size ''medium'' new_builder))"
  using build_missing_field [of "snd (set_base ''latte'' new_builder)" repr_zero]
    build_missing_field [of new_builder repr_zero]
    build_missing_field [of "snd (set_size ''medium'' new_builder)" repr_zero]
  by (simp add: set_base_def set_size_def return_self_def new_builder_def py_not_def
      CoffeeBase_values_def CoffeeSize_values_def)

text \<open>A call that raises leaves the builder as it was, and \<^verbatim>\<open>build\<close> never changes it.\<close>

lemma perform_raises_keeps:
  "perform lower frepr c b = (Some e, b') \<Longrightarrow> b' = b"
  by (cases c)
    (auto simp add: set_base_def set_size_def set_milk_def add_syrup_def set_sugar_def
      set_iced_def clear_extras_def reset_def build_def py_raise_def return_self_def
      split: if_splits sum.splits)

lemma build_keeps_state: "snd (build frepr b) = b"
  by (simp add: build_def py_raise_def split: sum.splits)

text \<open>
  Claim C5. For every builder state and every single call: when a setter raises, the
  builder's state is what it was before the call; when \<^verbatim>\<open>build\<close> raises, the state is
  unchanged; a successful \<^verbatim>\<open>build\<close> leaves the state unchanged too, so that a second
  \<^verbatim>\<open>build\<close> right after the first returns an equal order.
\<close>

theorem calls_atomic:
  "(\<forall>c e b'. perform lower frepr c b = (Some e, b') \<longrightarrow> b' = b)
   \<and> snd (build frepr b) = b
   \<and> build frepr (snd (build frepr b)) = build frepr b"
  using perform_raises_keeps build_keeps_state by metis

theorem calls_atomic_witness:
  "perform ascii_lower repr_zero (SetSugar (PyInt 6)) latte_state
     = (Some (ValueError SugarRange), latte_state)
   \<and> b_sugar latte_state = PyInt 1
   \<and> perform ascii_lower repr_zero (SetBase ''mocha'') latte_state
     = (Some (ValueError (BadBase ''mocha'')), latte_state)
   \<and> perform ascii_lower repr_zero Build new_builder = (Some (ValueError NoBase), new_builder)
   \<and> snd (build repr_zero latte_state) = latte_state"
  using calls_atomic [of ascii_lower repr_zero latte_state]
    calls_atomic [of ascii_lower repr_zero new_builder]
  by (simp add: set_sugar_def set_base_def build_def py_raise_def py_le_def MAX_SUGAR_def
      CoffeeBase_values_def new_builder_def py_not_def latte_state_def)

text \<open>
  Claim C9. For every order, \<^verbatim>\<open>str(order)\<close> is the stored description when that is not
  empty, and otherwise the text made of the size, a space, the base, \<^verbatim>\<open>" - "\<close>, the
  price and the rouble sign.
\<close>

theorem order_str_cases:
  "(o_description ord \<noteq> [] \<longrightarrow> order_str frepr ord = o_description ord)
   \<and> (o_description ord = [] \<longrightarrow>
        order_str frepr ord
          = o_size ord @ '' '' @ o_base ord @ '' - '' @ py_str frepr (o_price ord) @ lit_rouble)"
  by (simp add: order_str_def)

theorem order_str_cases_witness:
  "order_str repr_zero
     \<lparr>o_base = ''latte'', o_size = ''small'', o_milk = ''none'', o_syrups = [],
      o_sugar = PyInt 0, o_iced = False, o_price = PyFloat (Fin 0), o_description = []\<rparr>
     = ''small latte - 0.0'' @ lit_rouble
   \<and> order_str repr_zero
     \<lparr>o_base = ''latte'', o_size = ''small'', o_milk = ''none'', o_syrups = [],
      o_sugar = PyInt 0, o_iced = False, o_price = PyInt 300, o_description = ''small latte''\<rparr>
     = ''small latte''"
  using order_str_cases [of "\<lparr>o_base = ''latte'', o_size = ''small'', o_milk = ''none'',
        o_syrups = [], o_sugar = PyInt 0, o_iced = False, o_price = PyFloat (Fin 0),
        o_description = []\<rparr>" repr_zero]
    order_str_cases [of "\<lparr>o_base = ''latte'', o_size = ''small'', o_milk = ''none'',
        o_syrups = [], o_sugar = PyInt 0, o_iced = False, o_price = PyInt 300,
        o_description = ''small latte''\<rparr>" repr_zero]
  by (simp add: repr_zero_def)

section \<open>The invariant\<close>

lemma invariant_new_builder: "invariant new_builder"
  by (simp add: invariant_def new_builder_def MilkType_values_def py_le_def MAX_SUGAR_def
      fcard_fempty)

lemma reset_new_builder: "reset b = (Inr new_builder, new_builder)"
  by (simp add: reset_def return_self_def new_builder_def)

lemma perform_invariant:
  assumes "invariant b"
  shows "invariant (snd (perform lower frepr c b))"
proof (cases c)
  case (AddSyrup n)
  have "fcard (finsert (lower n) (b_syrups b)) \<le> Suc (fcard (b_syrups b))"
    by (simp add: fcard_finsert_if)
  with assms AddSyrup show ?thesis
    by (auto simp add: add_syrup_def invariant_def py_raise_def return_self_def MAX_SYRUPS_def)
next
  case Reset
  then show ?thesis by (simp add: reset_new_builder invariant_new_builder)
next
  case Build
  then show ?thesis using assms by (simp add: build_def py_raise_def split: sum.splits)
qed (use assms in \<open>auto simp add: set_base_def set_size_def set_milk_def set_sugar_def
      set_iced_def clear_extras_def invariant_def py_raise_def return_self_def
      MilkType_values_def py_le_def MAX_SUGAR_def fcard_fempty\<close>)

lemma run_ok_invariant:
  "invariant b \<Longrightarrow> run_ok lower frepr cs b = Some b' \<Longrightarrow> invariant b'"
proof (induction cs arbitrary: b)
  case Nil
  then show ?case by simp
next
  case (Cons c cs)
  obtain r b1 where p: "perform lower frepr c b = (r, b1)" by (cases "perform lower frepr c b")
  with Cons.prems(2) have r: "r = None" and rest: "run_ok lower frepr cs b1 = Some b'"
    by (auto split: option.splits)
  from perform_invariant [OF Cons.prems(1), of lower frepr c] p have "invariant b1" by simp
  from Cons.IH [OF this rest] show ?case .
qed

lemma float_le_not_lt: "float_le x y \<Longrightarrow> \<not> float_lt y x"
  by (cases x; cases y) auto

lemma invariant_no_recheck:
  assumes "invariant b"
  shows "fst (build frepr b) \<noteq> Inl (ValueError SugarOver)
    \<and> fst (build frepr b) \<noteq> Inl (ValueError SyrupOver)"
proof -
  from assms have s: "\<not> py_gt (b_sugar b) (PyInt MAX_SUGAR)"
    by (auto simp add: invariant_def py_gt_def py_lt_def py_le_def dest: float_le_not_lt)
  from assms have k: "\<not> fcard (b_syrups b) > MAX_SYRUPS"
    by (simp add: invariant_def)
  have cp: "calculate_price b \<noteq> Inl (ValueError m)" for m
    by (auto simp add: calculate_price_def subscript_def Let_def split: option.splits)
  show ?thesis using s k cp
    by (auto simp add: build_def py_raise_def split: sum.splits)
qed

lemma invariant_values:
  assumes "invariant b" "b_base b = Some bs" "b_size b = Some sz"
  shows "bs \<noteq> []" "sz \<noteq> []" "bs \<in> set CoffeeBase_values" "sz \<in> set CoffeeSize_values"
  using assms by (auto simp add: invariant_def CoffeeBase_values_def CoffeeSize_values_def)

lemma subscript_tables:
  "bs \<in> set CoffeeBase_values \<Longrightarrow> \<exists>p. subscript BASE_PRICES bs = Inr p"
  "sz \<in> set CoffeeSize_values \<Longrightarrow> \<exists>m. subscript SIZE_MULTIPLIERS sz = Inr m"
  "mk \<in> set MilkType_values \<Longrightarrow> \<exists>p. subscript MILK_PRICES mk = Inr p"
  by (auto simp add: subscript_def CoffeeBase_values_def BASE_PRICES_def CoffeeSize_values_def
      SIZE_MULTIPLIERS_def MilkType_values_def MILK_PRICES_def)

lemma calculate_price_returns:
  assumes "invariant b" "b_base b = Some bs" "b_size b = Some sz"
  shows "\<exists>p. calculate_price b = Inr p"
proof -
  from invariant_values [OF assms]
  obtain p0 m where a: "subscript BASE_PRICES bs = Inr p0"
    "subscript SIZE_MULTIPLIERS sz = Inr m"
    using subscript_tables(1,2) by blast
  from assms(1) obtain mp where b: "subscript MILK_PRICES (b_milk b) = Inr mp"
    using subscript_tables(3) by (auto simp add: invariant_def)
  show ?thesis using a b assms(2,3)
    by (simp add: calculate_price_def Let_def)
qed

lemma build_returns:
  assumes "invariant b" "b_base b = Some bs" "b_size b = Some sz"
  shows "\<exists>p. calculate_price b = Inr p \<and> build frepr b =
    (Inr \<lparr>o_base = bs, o_size = sz, o_milk = b_milk b,
          o_syrups = sorted_list_of_fset (b_syrups b), o_sugar = b_sugar b,
          o_iced = b_iced b, o_price = p,
          o_description = generate_description frepr b\<rparr>, b)"
proof -
  from calculate_price_returns [OF assms] obtain p where p: "calculate_price b = Inr p" ..
  from assms(1) have s: "\<not> py_gt (b_sugar b) (PyInt MAX_SUGAR)"
    by (auto simp add: invariant_def py_gt_def py_lt_def py_le_def dest: float_le_not_lt)
  from assms(1) have k: "\<not> fcard (b_syrups b) > MAX_SYRUPS"
    by (simp add: invariant_def)
  from invariant_values(1,2) [OF assms] have "\<not> py_not (b_base b)" "\<not> py_not (b_size b)"
    using assms(2,3) by (simp_all add: py_not_def)
  with p s k assms(2,3) show ?thesis
    by (simp add: build_def)
qed

text \<open>The two example states arise from their calls on a fresh builder.\<close>

lemma latte_calls_run: "run_ok ascii_lower repr_zero latte_calls new_builder = Some latte_state"
  by code_simp

lemma cappuccino_calls_run:
  "run_ok ascii_lower repr_zero cappuccino_calls new_builder = Some cappuccino_state"
  by code_simp

lemma latte_state_invariant: "invariant latte_state"
  by code_simp

lemma cappuccino_state_invariant: "invariant cappuccino_state"
  by code_simp

text \<open>
  Claim C7. Every builder reached from a fresh builder by a sequence of successful public
  calls (a \<^verbatim>\<open>reset\<close> gives the fresh builder again) satisfies the invariant: sugar lies
  in the interval from 0 to 5, there are at most 4 syrups, and milk is in the closed milk
  set (base and size, when set, are in their closed sets too). So the two re-checks of
  \<^verbatim>\<open>build\<close>, sugar above 5 and more than 4 syrups, never raise on such a builder.
\<close>

theorem reachable_invariant:
  assumes "run_ok lower frepr cs new_builder = Some b"
  shows "invariant b
    \<and> fst (build frepr b) \<noteq> Inl (ValueError SugarOver)
    \<and> fst (build frepr b) \<noteq> Inl (ValueError SyrupOver)
    \<and> snd (reset b) = new_builder"
  using run_ok_invariant [OF invariant_new_builder assms] invariant_no_recheck
  by (simp add: reset_new_builder)

theorem reachable_invariant_witness:
  "run_ok ascii_lower repr_zero latte_calls new_builder = Some latte_state
   \<and> invariant latte_state
   \<and> fst (build repr_zero latte_state) \<noteq> Inl (ValueError SugarOver)
   \<and> fst (build repr_zero latte_state) \<noteq> Inl (ValueError SyrupOver)"
  using reachable_invariant [OF latte_calls_run] latte_calls_run by simp

section \<open>The description\<close>

lemma join_first_two: "join sep (x # y # ys) = join sep ((x @ sep @ y) # ys)"
  by (cases ys) simp_all

lemma dict_get_milk_names: "dict_get milk_names m m = spec_milk_name m"
  by (simp add: dict_get_def milk_names_def spec_milk_name_def)

lemma sugar_word_int:
  "0 < n \<Longrightarrow> n \<le> 5 \<Longrightarrow> sugar_word (PyInt n) = spec_sugar_unit n"
  by (auto simp add: sugar_word_def spec_sugar_unit_def py_eq_def py_le_def)

lemma sorted_syrups_empty: "sorted_list_of_fset S = [] \<longleftrightarrow> S = {||}"
  by (metis sorted_list_of_fset_simps(2) fset_of_list_simps(1) sorted_list_of_fset_simps(1)
      bot_fset.rep_eq set_empty)

lemma generate_description_spec:
  assumes "b_base b = Some bs" "bs \<noteq> []" "b_size b = Some sz" "sz \<noteq> []"
    and "b_sugar b = PyInt n" "n \<le> 5"
  shows "generate_description frepr b
    = spec_description sz bs (b_milk b) (sorted_list_of_fset (b_syrups b)) (b_iced b) n"
proof -
  have gt: "py_gt (PyInt n) (PyInt 0) \<longleftrightarrow> 0 < n"
    by (simp add: py_gt_def py_lt_def)
  show ?thesis
    using assms
    by (simp add: generate_description_def spec_description_def py_not_def join_first_two
        dict_get_milk_names sorted_syrups_empty gt sugar_word_int)
qed

text \<open>
  Claim C2. For every builder state with base and size set and an integer sugar of at
  most 5, the description is the space-joined text of, in this order: size and base; when
  milk is not \<^verbatim>\<open>"none"\<close>, the milk segment with the mapped milk name, or the raw value
  when the value is not mapped; when there are syrups, the syrup segment with the
  comma-joined names in sorted order, without repetition; when iced, the ice segment; when
  sugar is positive, the sugar, the unit word (one form for 1, one for 2 to 4, one for 5)
  and the closing word. When the state satisfies the invariant, \<^verbatim>\<open>build\<close> returns an
  order with this description and these syrup names.
\<close>

theorem build_description:
  assumes "b_base b = Some bs" "bs \<noteq> []" "b_size b = Some sz" "sz \<noteq> []"
    and "b_sugar b = PyInt n" "n \<le> 5"
  shows "generate_description frepr b
      = spec_description sz bs (b_milk b) (sorted_list_of_fset (b_syrups b)) (b_iced b) n
    \<and> sorted (sorted_list_of_fset (b_syrups b))
    \<and> distinct (sorted_list_of_fset (b_syrups b))
    \<and> set (sorted_list_of_fset (b_syrups b)) = fset (b_syrups b)
    \<and> (invariant b \<longrightarrow>
        (\<exists>ord. build frepr b = (Inr ord, b)
           \<and> o_syrups ord = sorted_list_of_fset (b_syrups b)
           \<and> o_description ord
             = spec_description sz bs (b_milk b) (o_syrups ord) (b_iced b) n))"
proof -
  note d = generate_description_spec [OF assms, of frepr]
  have "\<exists>ord. build frepr b = (Inr ord, b)
           \<and> o_syrups ord = sorted_list_of_fset (b_syrups b)
           \<and> o_description ord
             = spec_description sz bs (b_milk b) (o_syrups ord) (b_iced b) n" if "invariant b"
    using build_returns [OF that assms(1,3), of frepr] d by auto
  then show ?thesis
    using d by (simp add: sorted_list_of_fset.rep_eq)
qed

lemma latte_state_syrups: "sorted_list_of_fset (b_syrups latte_state) = [lit_karamel]"
  by code_simp

lemma cappuccino_state_syrups:
  "sorted_list_of_fset (b_syrups cappuccino_state) = [lit_vanil, lit_karamel]"
  by code_simp

lemma cappuccino_description:
  "spec_description ''large'' ''cappuccino'' ''none'' [lit_vanil, lit_karamel] True 0
     = ''large cappuccino + '' @ lit_siropy @ '': '' @ lit_vanil @ '', '' @ lit_karamel
       @ '' ('' @ lit_so_ldom @ '')''"
  by code_simp

lemma latte_description:
  "spec_description ''medium'' ''latte'' ''oat'' [lit_karamel] True 1
     = ''medium latte '' @ lit_s @ '' '' @ lit_ovsyanoe @ '' '' @ lit_molokom
       @ '' + '' @ lit_siropy @ '': '' @ lit_karamel
       @ '' ('' @ lit_so_ldom @ '') 1 '' @ lit_lozhka @ '' '' @ lit_sakhara"
  by code_simp

theorem build_description_witness:
  "invariant latte_state
   \<and> (\<exists>ord. build repr_zero latte_state = (Inr ord, latte_state)
        \<and> o_syrups ord = [lit_karamel]
        \<and> o_description ord
          = ''medium latte '' @ lit_s @ '' '' @ lit_ovsyanoe @ '' '' @ lit_molokom
            @ '' + '' @ lit_siropy @ '': '' @ lit_karamel
            @ '' ('' @ lit_so_ldom @ '') 1 '' @ lit_lozhka @ '' '' @ lit_sakhara)
   \<and> generate_description repr_zero (latte_state\<lparr>b_milk := ''almond''\<rparr>)
       = ''medium latte '' @ lit_s @ '' almond '' @ lit_molokom
         @ '' + '' @ lit_siropy @ '': '' @ lit_karamel
         @ '' ('' @ lit_so_ldom @ '') 1 '' @ lit_lozhka @ '' '' @ lit_sakhara
   \<and> (\<exists>ord. build repr_zero cappuccino_state = (Inr ord, cappuccino_state)
        \<and> o_syrups ord = [lit_vanil, lit_karamel]
        \<and> o_description ord
          = ''large cappuccino + '' @ lit_siropy @ '': '' @ lit_vanil @ '', '' @ lit_karamel
            @ '' ('' @ lit_so_ldom @ '')'')"
proof -
  have f: "b_base latte_state = Some ''latte''" "''latte'' \<noteq> []"
    "b_size latte_state = Some ''medium''" "''medium'' \<noteq> []"
    "b_sugar latte_state = PyInt 1" "(1::int) \<le> 5" "b_milk latte_state = ''oat''"
    "b_iced latte_state"
    by (simp_all add: latte_state_def)
  have g: "b_base (latte_state\<lparr>b_milk := ''almond''\<rparr>) = Some ''latte''"
    "b_size (latte_state\<lparr>b_milk := ''almond''\<rparr>) = Some ''medium''"
    "b_sugar (latte_state\<lparr>b_milk := ''almond''\<rparr>) = PyInt 1"
    by (simp_all add: latte_state_def)
  have a: "spec_description ''medium'' ''latte'' ''almond'' [lit_karamel] True 1
     = ''medium latte '' @ lit_s @ '' almond '' @ lit_molokom
       @ '' + '' @ lit_siropy @ '': '' @ lit_karamel
       @ '' ('' @ lit_so_ldom @ '') 1 '' @ lit_lozhka @ '' '' @ lit_sakhara"
    by code_simp
  have h: "b_base cappuccino_state = Some ''cappuccino''" "''cappuccino'' \<noteq> []"
    "b_size cappuccino_state = Some ''large''" "''large'' \<noteq> []"
    "b_sugar cappuccino_state = PyInt 0" "(0::int) \<le> 5" "b_milk cappuccino_state = ''none''"
    "b_iced cappuccino_state"
    by (simp_all add: cappuccino_state_def)
  have l: "\<exists>ord. build repr_zero latte_state = (Inr ord, latte_state)
        \<and> o_syrups ord = [lit_karamel]
        \<and> o_description ord
          = ''medium latte '' @ lit_s @ '' '' @ lit_ovsyanoe @ '' '' @ lit_molokom
            @ '' + '' @ lit_siropy @ '': '' @ lit_karamel
            @ '' ('' @ lit_so_ldom @ '') 1 '' @ lit_lozhka @ '' '' @ lit_sakhara"
    using build_description [OF f(1-6), of repr_zero]
      latte_state_invariant latte_state_syrups latte_description f(7,8)
    by auto
  have m: "generate_description repr_zero (latte_state\<lparr>b_milk := ''almond''\<rparr>)
       = ''medium latte '' @ lit_s @ '' almond '' @ lit_molokom
         @ '' + '' @ lit_siropy @ '': '' @ lit_karamel
         @ '' ('' @ lit_so_ldom @ '') 1 '' @ lit_lozhka @ '' '' @ lit_sakhara"
    using build_description [OF g(1) f(2) g(2) f(4) g(3) f(6), of repr_zero]
      latte_state_syrups a f(8)
    by simp
  have c: "\<exists>ord. build repr_zero cappuccino_state = (Inr ord, cappuccino_state)
        \<and> o_syrups ord = [lit_vanil, lit_karamel]
        \<and> o_description ord
          = ''large cappuccino + '' @ lit_siropy @ '': '' @ lit_vanil @ '', '' @ lit_karamel
            @ '' ('' @ lit_so_ldom @ '')''"
    using build_description [OF h(1-6), of repr_zero]
      cappuccino_state_invariant cappuccino_state_syrups cappuccino_description h(7,8)
    by auto
  from latte_state_invariant l m c show ?thesis by blast
qed

section \<open>The price\<close>

lemma spec_price_exact:
  assumes "of_int (spec_base_price bs) * spec_size_multiplier sz = (of_int P :: rat)"
  shows "spec_price bs sz mk k ic
    = of_int (P + spec_milk_price mk + int k * 40) + (if ic then 1 / 5 else 0)"
proof -
  define n where "n = P + spec_milk_price mk + int k * 40"
  define x :: rat where "x = of_int n + (if ic then 1 / 5 else 0)"
  have e: "of_int (spec_base_price bs) * spec_size_multiplier sz
      + of_int (spec_milk_price mk) + of_nat k * 40 + (if ic then 2 / 10 else 0) = x"
    by (simp add: assms x_def n_def)
  have x100: "x * 100 = of_int (n * 100 + (if ic then 20 else 0))"
    by (simp add: x_def algebra_simps)
  have "round_half_even (x * 100) = n * 100 + (if ic then 20 else 0)"
    unfolding x100 by (rule round_half_even_of_int)
  then have "round_2dp x = x"
    by (simp add: round_2dp_def x_def)
  then show ?thesis
    by (simp add: spec_price_def e) (simp add: x_def n_def)
qed

lemma calculate_price_value:
  assumes "invariant b" "b_base b = Some bs" "b_size b = Some sz"
  shows "calculate_price b
    = Inr (PyFloat (Fin (fl (spec_price bs sz (b_milk b) (fcard (b_syrups b)) (b_iced b)))))"
proof -
  note v = invariant_values [OF assms]
  from assms(1) have mk: "b_milk b \<in> set MilkType_values" and k: "fcard (b_syrups b) \<le> 4"
    by (simp_all add: invariant_def MAX_SYRUPS_def)
  from product_exact [OF v(3,4)] obtain P :: int where P: "200 \<le> P" "P \<le> 448"
    and pm: "fmul (float_of_int (spec_base_price bs)) (float_lit (spec_size_multiplier sz))
      = of_int P"
    and pe: "of_int (spec_base_price bs) * spec_size_multiplier sz = (of_int P :: rat)"
    by blast
  define M where "M = spec_milk_price (b_milk b)"
  define K where "K = int (fcard (b_syrups b)) * SYRUP_PRICE"
  from milk_lookup [OF mk] have ml: "subscript MILK_PRICES (b_milk b) = Inr M"
    and M: "0 \<le> M" "M \<le> 60" by (simp_all add: M_def)
  from k have K: "0 \<le> K" "K \<le> 160" by (simp_all add: K_def SYRUP_PRICE_def)
  have p2: "fadd (of_int P) (float_of_int M) = of_int (P + M)"
    using P M by (intro fadd_ints) auto
  have p3: "fadd (of_int (P + M)) (float_of_int K) = of_int (P + M + K)"
    using P M K by (intro fadd_ints) auto
  define N where "N = P + M + K"
  have N: "1 \<le> N" "N \<le> 1000" "0 \<le> N" "N < 2 ^ 53"
    using P M K by (simp_all add: N_def)
  have final: "py_round (if b_iced b then fadd (of_int N) ICED_PRICE else of_int N) 2
      = fl (of_int N + (if b_iced b then 1 / 5 else 0))"
    using py_round_iced [OF N(1,2)] py_round_of_int [OF N(3,4)] fl_of_int [OF N(3,4)]
    by simp
  have sp: "spec_price bs sz (b_milk b) (fcard (b_syrups b)) (b_iced b)
      = of_int N + (if b_iced b then 1 / 5 else 0)"
    using spec_price_exact [OF pe, of "b_milk b" "fcard (b_syrups b)" "b_iced b"]
    by (simp add: N_def M_def K_def SYRUP_PRICE_def)
  have "calculate_price b
      = Inr (PyFloat (Fin (py_round (if b_iced b then fadd (of_int N) ICED_PRICE
                                      else of_int N) 2)))"
    using assms(2,3) v(1,2) base_lookup [OF v(3)] size_lookup [OF v(4)] ml pm p2 p3
    by (simp add: calculate_price_def py_not_def Let_def K_def [symmetric] N_def)
  with final sp show ?thesis by simp
qed

lemma default_price_exact:
  assumes "bs \<in> set CoffeeBase_values" "sz \<in> set CoffeeSize_values"
  shows "fl (spec_price bs sz ''none'' 0 False)
    = of_int (spec_base_price bs) * spec_size_multiplier sz"
proof -
  from product_exact [OF assms] obtain P :: int where P: "200 \<le> P" "P \<le> 448"
    and pe: "of_int (spec_base_price bs) * spec_size_multiplier sz = (of_int P :: rat)"
    by blast
  from P have "0 \<le> P" "P < 2 ^ 53" by simp_all
  from fl_of_int [OF this] spec_price_exact [OF pe, of "''none''" 0 False] pe
  show ?thesis by (simp add: spec_milk_price_def)
qed

text \<open>
  Claim C1. For every builder state of the data model in which base and size are set,
  \<^verbatim>\<open>build\<close> returns an order whose price is the float nearest to the specification's
  price: base price times size multiplier, plus milk price, plus 40 for each syrup, plus
  0.2 when iced, rounded to two decimals, with the tables of the specification. With all
  extras at their defaults the price is the product of base price and size multiplier,
  which is a whole number. The example is the cappuccino of the tests: large, two syrups,
  iced, with price 528.2.
\<close>

theorem build_price:
  assumes "invariant b" "b_base b = Some bs" "b_size b = Some sz"
  shows "\<exists>ord. build frepr b = (Inr ord, b)
    \<and> o_price ord
      = PyFloat (Fin (fl (spec_price bs sz (b_milk b) (fcard (b_syrups b)) (b_iced b))))
    \<and> (b_milk b = ''none'' \<and> b_syrups b = {||} \<and> \<not> b_iced b \<longrightarrow>
         o_price ord = PyFloat (Fin (of_int (spec_base_price bs) * spec_size_multiplier sz)))"
proof -
  note v = invariant_values [OF assms]
  from build_returns [OF assms, of frepr] calculate_price_value [OF assms]
  obtain ord where ord: "build frepr b = (Inr ord, b)"
    and p: "o_price ord
      = PyFloat (Fin (fl (spec_price bs sz (b_milk b) (fcard (b_syrups b)) (b_iced b))))"
    by auto
  have "o_price ord = PyFloat (Fin (of_int (spec_base_price bs) * spec_size_multiplier sz))"
    if "b_milk b = ''none''" "b_syrups b = {||}" "\<not> b_iced b"
    using p that default_price_exact [OF v(3,4)] by (simp add: fcard_fempty)
  with ord p show ?thesis by auto
qed

lemma cappuccino_spec_price: "spec_price ''cappuccino'' ''large'' ''none'' 2 True = 5282 / 10"
  by code_simp

lemma cappuccino_syrups: "fcard (b_syrups cappuccino_state) = 2"
  by code_simp

lemma cappuccino_cleared_invariant: "invariant (snd (clear_extras cappuccino_state))"
  by code_simp

theorem build_price_witness:
  "run_ok ascii_lower repr_zero cappuccino_calls new_builder = Some cappuccino_state
   \<and> invariant cappuccino_state
   \<and> (\<exists>ord. build repr_zero cappuccino_state = (Inr ord, cappuccino_state)
        \<and> o_price ord = PyFloat (Fin (float_lit (5282 / 10))))
   \<and> (\<exists>ord. build repr_zero (snd (clear_extras cappuccino_state))
          = (Inr ord, snd (clear_extras cappuccino_state))
        \<and> o_price ord = PyFloat (Fin 448))"
proof -
  have f: "b_base cappuccino_state = Some ''cappuccino''"
    "b_size cappuccino_state = Some ''large''" "b_milk cappuccino_state = ''none''"
    "b_iced cappuccino_state"
    by (simp_all add: cappuccino_state_def)
  define c where "c = snd (clear_extras cappuccino_state)"
  have g: "b_base c = Some ''cappuccino''" "b_size c = Some ''large''" "b_milk c = ''none''"
    "b_syrups c = {||}" "\<not> b_iced c"
    by (simp_all add: c_def cappuccino_state_def clear_extras_def return_self_def)
  have ic: "invariant c"
    using cappuccino_cleared_invariant by (simp add: c_def)
  have m: "of_int (spec_base_price ''cappuccino'') * spec_size_multiplier ''large''
      = (448 :: rat)"
    by (simp add: spec_base_price_def spec_size_multiplier_def)
  from build_price [OF cappuccino_state_invariant f(1,2), of repr_zero]
    build_price [OF ic g(1,2), of repr_zero]
  show ?thesis
    using cappuccino_calls_run cappuccino_state_invariant cappuccino_spec_price cappuccino_syrups
      f(3,4) g(3,4,5) m
    by (auto simp add: float_lit_def c_def)
qed

end
